theory Spec2Isabelle
  imports
    Complex_Main
    "HOL-Library.Sublist"
    "HOL-Library.AList"
    "HOL-Library.Multiset"
    "HOL-Library.Product_Lexorder"
begin

section \<open>Strings\<close>

text \<open>
  Python strings are modelled as \<^typ>\<open>string\<close> over ASCII. \<open>sub in s\<close> is the
  substring test, \<open>s.startswith(p)\<close> the prefix test, \<open>s.upper()\<close> maps the letters
  a..z to A..Z, \<open>str(n)\<close> is the decimal numeral of a non-negative integer,
  \<open>s.strip()\<close> removes leading and trailing whitespace, \<open>s.split(c)\<close> cuts at every
  occurrence of the separator and \<open>c.join(xs)\<close> glues the pieces back.
\<close>

fun py_in :: "string \<Rightarrow> string \<Rightarrow> bool" where
  "py_in sub [] = (sub = [])"
| "py_in sub (c # cs) = (prefix sub (c # cs) \<or> py_in sub cs)"

definition startswith :: "string \<Rightarrow> string \<Rightarrow> bool" where
  "startswith s p = prefix p s"

definition upper_char :: "char \<Rightarrow> char" where
  "upper_char c =
     (case map_of (zip ''abcdefghijklmnopqrstuvwxyz'' ''ABCDEFGHIJKLMNOPQRSTUVWXYZ'') c of
        Some u \<Rightarrow> u
      | None \<Rightarrow> c)"

definition upper :: "string \<Rightarrow> string" where
  "upper s = map upper_char s"

definition digit_char :: "nat \<Rightarrow> char" where
  "digit_char d = ''0123456789'' ! d"

function str :: "nat \<Rightarrow> string" where
  "str n = (if n < 10 then [digit_char n] else str (n div 10) @ [digit_char (n mod 10)])"
  by pat_completeness auto
termination
  by (relation "measure id") auto

declare str.simps [simp del]

definition is_space :: "char \<Rightarrow> bool" where
  "is_space c = (c \<in> set [CHR 0x09, CHR 0x0A, CHR 0x0B, CHR 0x0C, CHR 0x0D,
                           CHR 0x1C, CHR 0x1D, CHR 0x1E, CHR 0x1F, CHR 0x20])"

definition strip :: "string \<Rightarrow> string" where
  "strip s = rev (dropWhile is_space (rev (dropWhile is_space s)))"

fun split_on :: "char \<Rightarrow> string \<Rightarrow> string list" where
  "split_on sep [] = [[]]"
| "split_on sep (c # cs) =
     (if c = sep then [] # split_on sep cs
      else (case split_on sep cs of
              [] \<Rightarrow> [[c]]
            | piece # pieces \<Rightarrow> (c # piece) # pieces))"

fun join_with :: "string \<Rightarrow> string list \<Rightarrow> string" where
  "join_with sep [] = []"
| "join_with sep [x] = x"
| "join_with sep (x # y # ys) = x @ sep @ join_with sep (y # ys)"

definition newline :: char where
  "newline = CHR 0x0A"

text \<open>\<open>xs[i:]\<close> for a Python integer \<open>i\<close>: a negative index counts from the end.\<close>

definition slice_from :: "int \<Rightarrow> 'a list \<Rightarrow> 'a list" where
  "slice_from i xs =
     (if 0 \<le> i then drop (nat i) xs else drop (nat (int (length xs) + i)) xs)"


section \<open>Column resolver (\<open>AeronetDataProcessor.extract_aod_columns\<close>)\<close>

definition aod_wavelengths :: "nat list" where
  "aod_wavelengths = [340, 380, 440, 500, 675, 870, 1020]"

text \<open>The test of the inner loop: \<open>str(wavelength) in col and 'AOD' in col.upper()\<close>.\<close>

definition col_matches :: "string \<Rightarrow> nat \<Rightarrow> bool" where
  "col_matches col wavelength = (py_in (str wavelength) col \<and> py_in ''AOD'' (upper col))"

text \<open>
  The result dictionary is an association list in insertion order; \<open>d[k] = v\<close> is
  \<^const>\<open>AList.update\<close>, which overwrites the value of a key that is present and appends a
  new key otherwise. The inner loop over the wavelengths stops at the first wavelength
  that matches the column (\<open>break\<close>); the outer loop visits every column.
\<close>

fun bind_first :: "string \<Rightarrow> nat list \<Rightarrow> (nat \<times> string) list \<Rightarrow> (nat \<times> string) list" where
  "bind_first col [] aod_columns = aod_columns"
| "bind_first col (wavelength # ws) aod_columns =
     (if col_matches col wavelength then AList.update wavelength col aod_columns
      else bind_first col ws aod_columns)"

fun scan_columns :: "string list \<Rightarrow> (nat \<times> string) list \<Rightarrow> (nat \<times> string) list" where
  "scan_columns [] aod_columns = aod_columns"
| "scan_columns (col # cols) aod_columns =
     scan_columns cols (bind_first col aod_wavelengths aod_columns)"

definition extract_aod_columns :: "string list \<Rightarrow> (nat \<times> string) list" where
  "extract_aod_columns cols = scan_columns cols []"

text \<open>The wavelength a column is bound to: the first one of the fixed list that it matches.\<close>

definition first_wavelength :: "string \<Rightarrow> nat option" where
  "first_wavelength col = find (col_matches col) aod_wavelengths"


section \<open>Exceptions, tables and the libraries the code calls\<close>

text \<open>
  The exceptions that can reach a handler of the repository, and the two exceptions
  \<open>get_aod_data\<close> re-raises: \<open>Exception("Failed to fetch data: ...")\<close> from the handler
  of \<open>requests.exceptions.RequestException\<close> and \<open>Exception("Failed to parse data: ...")\<close>
  from the handler of every other exception. Both carry the exception they caught.
\<close>

datatype exn =
    RequestException string
  | KeyError string
  | TypeError
  | ValueError string
  | ParserError string

datatype failure =
    Failed_to_fetch_data exn
  | Failed_to_parse_data exn

text \<open>
  A data frame is a list of named, typed columns and a list of rows; a row holds one
  cell per column. \<^term>\<open>Null\<close> stands for the missing values of pandas (NaN, None, NaT).
  \<^term>\<open>Num\<close> is a value of an \<open>int64\<close> or \<open>float64\<close> column, the column's dtype saying
  which; floating-point numbers are idealised as reals, so that \<open>-999\<close> and \<open>-999.0\<close>
  are the same number, as they are for the comparison of pandas. \<^term>\<open>Time\<close> is a
  timestamp (nanoseconds since the epoch).
\<close>

datatype cell = Null | Num real | Str string | Bool bool | Time int

datatype dtype = Int64 | Float64 | Object | Boolean | Datetime64

record dataframe =
  columns :: "(string \<times> dtype) list"
  rows :: "cell list list"

definition names :: "dataframe \<Rightarrow> string list" where
  "names df = map fst (columns df)"

definition dtypes :: "dataframe \<Rightarrow> dtype list" where
  "dtypes df = map snd (columns df)"

text \<open>\<open>pd.DataFrame()\<close> and \<open>df.empty\<close> (true when either axis has length 0).\<close>

definition empty_frame :: dataframe where
  "empty_frame = \<lparr>columns = [], rows = []\<rparr>"

definition df_empty :: "dataframe \<Rightarrow> bool" where
  "df_empty df = (columns df = [] \<or> rows df = [])"

text \<open>A row read as a mapping from column names to cells, and \<open>df[name]\<close>.\<close>

definition row_get :: "string list \<Rightarrow> cell list \<Rightarrow> string \<Rightarrow> cell" where
  "row_get ns r name = (case map_of (zip ns r) name of Some c \<Rightarrow> c | None \<Rightarrow> Null)"

definition get_column :: "dataframe \<Rightarrow> string \<Rightarrow> exn + cell list" where
  "get_column df name =
     (if name \<in> set (names df) then Inr (map (\<lambda>r. row_get (names df) r name) (rows df))
      else Inl (KeyError name))"

text \<open>
  \<open>df[name] = series\<close>: the cells of an existing column are overwritten in place, a new
  column is appended on the right.
\<close>

fun upd_row :: "string list \<Rightarrow> string \<Rightarrow> cell \<Rightarrow> cell list \<Rightarrow> cell list" where
  "upd_row (n # ns) name v (c # cs) = (if n = name then v # cs else c # upd_row ns name v cs)"
| "upd_row ns name v r = r @ [v]"

definition set_column :: "dataframe \<Rightarrow> string \<Rightarrow> dtype \<Rightarrow> cell list \<Rightarrow> dataframe" where
  "set_column df name d series =
     \<lparr>columns = AList.update name d (columns df),
      rows = map (\<lambda>(r, v). upd_row (names df) name v r) (zip (rows df) series)\<rparr>"

text \<open>
  What the code calls in \<open>requests\<close>, \<open>pandas\<close> and the Python runtime is not code of
  the repository; it is a parameter of the model.
  \<^item> \<open>http_get\<close>: \<open>requests.get\<close> and \<open>Session.get\<close>; \<^term>\<open>Inl cause\<close> is a
    \<open>RequestException\<close> (DNS failure, refused connection, timeout, ...);
  \<^item> \<open>raise_for_status\<close>: \<^term>\<open>Some cause\<close> is the \<open>HTTPError\<close> raised for an error status;
  \<^item> \<open>read_csv\<close>: \<open>pd.read_csv(StringIO(text))\<close>, which may raise;
  \<^item> \<open>to_datetime_fmt\<close>, \<open>to_datetime\<close>: \<open>pd.to_datetime\<close> on one string, with the
    format \<open>%d:%m:%Y %H:%M:%S\<close> and with the format inferred; \<^term>\<open>None\<close> is a string
    that does not parse (\<open>ValueError\<close>);
  \<^item> \<open>sort_values\<close>: the reordering of the rows that \<open>DataFrame.sort_values\<close> does for a
    key column (default arguments: \<open>kind='quicksort'\<close>, \<open>na_position='last'\<close>);
  \<^item> \<open>py_float\<close>: \<open>float(s)\<close>, \<^term>\<open>None\<close> when it raises \<open>ValueError\<close>.
\<close>

record http_response =
  status_code :: nat
  response_text :: string

record request =
  url :: string
  params :: "(string \<times> string) list"

record library =
  http_get :: "request \<Rightarrow> string + http_response"
  raise_for_status :: "http_response \<Rightarrow> string option"
  read_csv :: "string \<Rightarrow> exn + dataframe"
  to_datetime_fmt :: "string \<Rightarrow> int option"
  to_datetime :: "string \<Rightarrow> int option"
  sort_values :: "(cell list \<Rightarrow> cell) \<Rightarrow> cell list list \<Rightarrow> cell list list"
  py_float :: "string \<Rightarrow> real option"

text \<open>
  The order \<open>sort_values\<close> sorts timestamps by: ascending, missing timestamps last.
\<close>

definition ts_key :: "cell \<Rightarrow> nat \<times> int" where
  "ts_key c = (case c of Time t \<Rightarrow> (0, t) | _ \<Rightarrow> (1, 0))"

definition sorts_by_key :: "library \<Rightarrow> bool" where
  "sorts_by_key L =
     (\<forall>k rs. mset (sort_values L k rs) = mset rs
            \<and> sorted (map (\<lambda>r. ts_key (k r)) (sort_values L k rs)))"



record site =
  Site_Name :: string
  Longitude :: real
  Latitude :: real
  Elevation :: real

text \<open>
  The state the code reads and writes: the clock, the time of the last request of the
  API client, the HTTP requests sent so far, the log records, the messages shown to the
  user, the table kept in the session, and the entry of the cache of \<open>get_sites_list\<close>
  (the time it was stored at and the stored result).
\<close>

datatype log_record = Info string | Error string exn

record world =
  clock :: real
  last_request_time :: real
  sent :: "request list"
  logged :: "log_record list"
  shown :: "string list"
  session_aod_data :: "dataframe option"
  sites_cache :: "(real \<times> site list) option"

section \<open>API client (\<open>AeronetAPI\<close>)\<close>

definition base_url :: string where
  "base_url = ''https://aeronet.gsfc.nasa.gov/cgi-bin/print_web_data_v3''"

definition sites_url :: string where
  "sites_url = ''https://aeronet.gsfc.nasa.gov/aeronet_locations_v3.txt''"

text \<open>
  \<open>_respect_rate_limit\<close>: sleeps for the rest of the delay when less than the delay has
  passed since the last request, then records the time. Sleeping advances the clock.
\<close>

definition respect_rate_limit :: "real \<Rightarrow> world \<Rightarrow> world" where
  "respect_rate_limit delay w =
     (let elapsed = clock w - last_request_time w;
          w1 = (if elapsed < delay then w\<lparr>clock := clock w + (delay - elapsed)\<rparr> else w)
      in w1\<lparr>last_request_time := clock w1\<rparr>)"

subsection \<open>\<open>get_sites_list\<close>\<close>

text \<open>
  The loop over the lines after the header. A blank line and a line with fewer than
  four fields are skipped; a field that \<open>float\<close> rejects raises \<open>ValueError\<close>, which ends
  the loop.
\<close>

fun parse_site_lines :: "library \<Rightarrow> string list \<Rightarrow> exn + site list" where
  "parse_site_lines L [] = Inr []"
| "parse_site_lines L (line # rest) =
     (if strip line \<noteq> [] then
        (let parts = split_on CHR '','' line in
         if length parts \<ge> 4 then
           (case py_float L (strip (parts ! 1)) of
              None \<Rightarrow> Inl (ValueError (strip (parts ! 1)))
            | Some lon \<Rightarrow>
           (case py_float L (strip (parts ! 2)) of
              None \<Rightarrow> Inl (ValueError (strip (parts ! 2)))
            | Some lat \<Rightarrow>
           (case (if strip (parts ! 3) \<noteq> [] then py_float L (strip (parts ! 3)) else Some 0) of
              None \<Rightarrow> Inl (ValueError (strip (parts ! 3)))
            | Some elev \<Rightarrow>
           (case parse_site_lines L rest of
              Inl e \<Rightarrow> Inl e
            | Inr sites \<Rightarrow>
                Inr (\<lparr>Site_Name = strip (parts ! 0), Longitude = lon,
                      Latitude = lat, Elevation = elev\<rparr> # sites)))))
         else parse_site_lines L rest)
      else parse_site_lines L rest)"

definition sites_request :: request where
  "sites_request = \<lparr>url = sites_url, params = []\<rparr>"

text \<open>The body of the \<open>try\<close> block: the exception it raises, or the sites it parsed.\<close>

definition try_sites :: "library \<Rightarrow> exn + site list" where
  "try_sites L =
     (case http_get L sites_request of
        Inl cause \<Rightarrow> Inl (RequestException cause)
      | Inr response \<Rightarrow>
          (case raise_for_status L response of
             Some cause \<Rightarrow> Inl (RequestException cause)
           | None \<Rightarrow>
               parse_site_lines L (drop 1 (split_on newline (strip (response_text response))))))"

text \<open>
  The body of \<open>get_sites_list\<close>: the handler of \<open>Exception\<close> logs the error and returns
  the empty frame; the frame of sites is modelled as the list of its rows.
\<close>

definition fetch_sites_list :: "library \<Rightarrow> world \<Rightarrow> site list \<times> world" where
  "fetch_sites_list L w =
     (let w1 = w\<lparr>sent := sent w @ [sites_request]\<rparr>
      in case try_sites L of
           Inl e \<Rightarrow> ([], w1\<lparr>logged := logged w1 @ [Error ''Error fetching sites list'' e]\<rparr>)
         | Inr sites \<Rightarrow> (sites, w1))"

text \<open>
  \<open>get_sites_list\<close> is decorated with \<open>st.cache_data(ttl=3600)\<close>; the argument \<open>_self\<close> is
  no part of the key, so the cache has one entry. A call within 3600 seconds of the time
  the entry was stored returns the stored result, be it a list of sites or the empty
  result of a failure, and does not run the body; any other call runs the body and
  stores its result.
\<close>

definition cached_sites :: "world \<Rightarrow> site list option" where
  "cached_sites w =
     (case sites_cache w of
        Some (stored_at, sites) \<Rightarrow> if clock w - stored_at < 3600 then Some sites else None
      | None \<Rightarrow> None)"

definition get_sites_list :: "library \<Rightarrow> world \<Rightarrow> site list \<times> world" where
  "get_sites_list L w =
     (case cached_sites w of
        Some sites \<Rightarrow> (sites, w)
      | None \<Rightarrow>
          (case fetch_sites_list L w of
             (sites, w1) \<Rightarrow> (sites, w1\<lparr>sites_cache := Some (clock w1, sites)\<rparr>)))"

subsection \<open>\<open>get_aod_data\<close>\<close>

record date =
  year :: nat
  month :: nat
  day :: nat

definition build_params :: "date \<Rightarrow> date \<Rightarrow> string \<Rightarrow> string \<Rightarrow> string \<Rightarrow> (string \<times> string) list" where
  "build_params start_dt end_dt site data_level avg_type =
     [(''site'', site),
      (''year'', str (year start_dt)), (''month'', str (month start_dt)), (''day'', str (day start_dt)),
      (''year2'', str (year end_dt)), (''month2'', str (month end_dt)), (''day2'', str (day end_dt)),
      (''AOD'' @ data_level, ''1''), (''AVG'', avg_type), (''if_no_html'', ''1'')]"

text \<open>
  Finding the start of the data: the loop leaves \<open>data_start\<close> at the index of the first
  line that starts with a date marker, or at 0; a \<open>data_start\<close> of 0 is then replaced by
  \<open>min(6, len(lines) - 1)\<close>.
\<close>

definition is_header :: "string \<Rightarrow> bool" where
  "is_header line = (startswith line ''Date(dd:mm:yyyy)'' \<or> startswith line ''Date_'')"

fun scan_header :: "nat \<Rightarrow> string list \<Rightarrow> nat" where
  "scan_header i [] = 0"
| "scan_header i (line # rest) = (if is_header line then i else scan_header (Suc i) rest)"

definition locate_data_start :: "string list \<Rightarrow> int" where
  "locate_data_start lines =
     (let data_start = int (scan_header 0 lines)
      in if data_start = 0 then min 6 (int (length lines) - 1) else data_start)"

text \<open>
  \<open>+\<close> on two cells of object columns, as pandas does it element by element: two
  strings are concatenated, a missing value on either side gives a missing value, any
  other pair raises \<open>TypeError\<close>.
\<close>

fun str_add :: "cell \<Rightarrow> cell \<Rightarrow> exn + cell" where
  "str_add (Str a) (Str b) = Inr (Str (a @ b))"
| "str_add Null b = Inr Null"
| "str_add a Null = Inr Null"
| "str_add a b = Inl TypeError"

text \<open>
  \<open>pd.to_datetime\<close> on one cell: a missing value gives NaT, a string is parsed, a
  number counts nanoseconds (truncated toward zero; NaT when it is outside the range of
  \<open>int64\<close>).
\<close>

fun convert_cell :: "(string \<Rightarrow> int option) \<Rightarrow> cell \<Rightarrow> exn + cell" where
  "convert_cell parse Null = Inr Null"
| "convert_cell parse (Str s) =
     (case parse s of Some t \<Rightarrow> Inr (Time t) | None \<Rightarrow> Inl (ValueError s))"
| "convert_cell parse (Time t) = Inr (Time t)"
| "convert_cell parse (Num x) =
     (let t = (if 0 \<le> x then \<lfloor>x\<rfloor> else \<lceil>x\<rceil>)
      in if - (2 ^ 63) < t \<and> t < 2 ^ 63 then Inr (Time t) else Inr Null)"
| "convert_cell parse (Bool b) = Inl TypeError"

fun map_exn :: "('a \<Rightarrow> exn + 'b) \<Rightarrow> 'a list \<Rightarrow> exn + 'b list" where
  "map_exn f [] = Inr []"
| "map_exn f (x # xs) =
     (case f x of
        Inl e \<Rightarrow> Inl e
      | Inr y \<Rightarrow> (case map_exn f xs of Inl e \<Rightarrow> Inl e | Inr ys \<Rightarrow> Inr (y # ys)))"

definition column_dtype :: "dataframe \<Rightarrow> string \<Rightarrow> dtype option" where
  "column_dtype df name = map_of (columns df) name"

text \<open>
  \<open>df[date_col] + ' ' + df[time_col]\<close>. Adding the string \<open>' '\<close> to a column that is
  not an object column (a column of numbers, such as a date column in which every value
  is missing) raises \<open>TypeError\<close>; then the time column is looked up and added
  element by element.
\<close>

definition date_plus_time :: "dataframe \<Rightarrow> string \<Rightarrow> string \<Rightarrow> exn + cell list" where
  "date_plus_time df date_col time_col =
     (case get_column df date_col of
        Inl e \<Rightarrow> Inl e
      | Inr date_cells \<Rightarrow>
          if column_dtype df date_col \<noteq> Some Object then Inl TypeError
          else
            (case map_exn (\<lambda>c. str_add c (Str '' '')) date_cells of
               Inl e \<Rightarrow> Inl e
             | Inr spaced \<Rightarrow>
                 (case get_column df time_col of
                    Inl e \<Rightarrow> Inl e
                  | Inr time_cells \<Rightarrow>
                      map_exn (\<lambda>(d, t). str_add d t) (zip spaced time_cells))))"

text \<open>
  The three ways the \<open>datetime\<close> column is made, and the case in which none applies and
  the frame is left as it is.
\<close>

definition resolve_datetime :: "library \<Rightarrow> dataframe \<Rightarrow> exn + dataframe" where
  "resolve_datetime L df =
     (if ''Date(dd:mm:yyyy)'' \<in> set (names df) then
        (case date_plus_time df ''Date(dd:mm:yyyy)'' ''Time(hh:mm:ss)'' of
           Inl e \<Rightarrow> Inl e
         | Inr combined \<Rightarrow>
        (case map_exn (convert_cell (to_datetime_fmt L)) combined of
           Inl e \<Rightarrow> Inl e
         | Inr series \<Rightarrow> Inr (set_column df ''datetime'' Datetime64 series)))
      else if list_ex (py_in ''Date_'') (names df) then
        (let date_col = hd (filter (py_in ''Date_'') (names df));
             time_col = (if list_ex (py_in ''Time_'') (names df)
                         then Some (hd (filter (py_in ''Time_'') (names df))) else None)
         in case time_col of
              Some tc \<Rightarrow>
                (case date_plus_time df date_col tc of
                   Inl e \<Rightarrow> Inl e
                 | Inr combined \<Rightarrow>
                (case map_exn (convert_cell (to_datetime L)) combined of
                   Inl e \<Rightarrow> Inl e
                 | Inr series \<Rightarrow> Inr (set_column df ''datetime'' Datetime64 series)))
            | None \<Rightarrow>
                (case get_column df date_col of
                   Inl e \<Rightarrow> Inl e
                 | Inr date_cells \<Rightarrow>
                (case map_exn (convert_cell (to_datetime L)) date_cells of
                   Inl e \<Rightarrow> Inl e
                 | Inr series \<Rightarrow> Inr (set_column df ''datetime'' Datetime64 series))))
      else Inr df)"

definition sort_by_datetime :: "library \<Rightarrow> dataframe \<Rightarrow> dataframe" where
  "sort_by_datetime L df =
     (if ''datetime'' \<in> set (names df)
      then df\<lparr>rows := sort_values L (\<lambda>r. row_get (names df) r ''datetime'') (rows df)\<rparr>
      else df)"

text \<open>The clean-up of the parsed frame (\<open>if not df.empty: ...\<close>).\<close>

definition normalize_frame :: "library \<Rightarrow> dataframe \<Rightarrow> exn + dataframe" where
  "normalize_frame L df =
     (if \<not> df_empty df then
        (case resolve_datetime L df of
           Inl e \<Rightarrow> Inl e
         | Inr df1 \<Rightarrow> Inr (sort_by_datetime L df1))
      else Inr df)"

text \<open>From the text of a non-blank response to the frame returned.\<close>

definition data_text :: "string \<Rightarrow> string" where
  "data_text body =
     (let lines = split_on newline (strip body);
          data_start = locate_data_start lines
      in join_with [newline] (slice_from data_start lines))"

definition parse_body :: "library \<Rightarrow> string \<Rightarrow> exn + dataframe" where
  "parse_body L body =
     (case read_csv L (data_text body) of
        Inl e \<Rightarrow> Inl e
      | Inr df \<Rightarrow> normalize_frame L df)"

definition aod_request :: "date \<Rightarrow> date \<Rightarrow> string \<Rightarrow> string \<Rightarrow> string \<Rightarrow> request" where
  "aod_request start_dt end_dt site data_level avg_type =
     \<lparr>url = base_url, params = build_params start_dt end_dt site data_level avg_type\<rparr>"

text \<open>
  \<open>get_aod_data\<close>. The dates are the ones \<open>main\<close> formats with \<open>%Y-%m-%d\<close> and
  \<open>strptime\<close> reads back with the same format. There is one call of \<open>session.get\<close>.
\<close>

definition get_aod_data ::
  "library \<Rightarrow> date \<Rightarrow> date \<Rightarrow> string \<Rightarrow> string \<Rightarrow> string \<Rightarrow> world \<Rightarrow> (failure + dataframe) \<times> world" where
  "get_aod_data L start_dt end_dt site data_level avg_type w =
     (let w1 = respect_rate_limit 1 w;
          req = aod_request start_dt end_dt site data_level avg_type;
          w2 = w1\<lparr>logged := logged w1 @ [Info ''Requesting data''], sent := sent w1 @ [req]\<rparr>;
          fetch_failed = (\<lambda>cause.
            (Inl (Failed_to_fetch_data (RequestException cause)),
             w2\<lparr>logged := logged w2 @ [Error ''Request error'' (RequestException cause)]\<rparr>))
      in case http_get L req of
           Inl cause \<Rightarrow> fetch_failed cause
         | Inr response \<Rightarrow>
             (case raise_for_status L response of
                Some cause \<Rightarrow> fetch_failed cause
              | None \<Rightarrow>
                  if strip (response_text response) = [] then (Inr empty_frame, w2)
                  else
                    (case parse_body L (response_text response) of
                       Inl e \<Rightarrow>
                         (Inl (Failed_to_parse_data e),
                          w2\<lparr>logged := logged w2 @ [Error ''Data parsing error'' e]\<rparr>)
                     | Inr df \<Rightarrow> (Inr df, w2))))"

section \<open>Data processor (\<open>AeronetDataProcessor\<close>)\<close>

subsection \<open>\<open>clean_data\<close>\<close>

text \<open>
  \<open>select_dtypes(include=[np.number])\<close> keeps the \<open>int64\<close> and \<open>float64\<close> columns;
  \<open>replace([-999, -999.0, 'N/A'], np.nan)\<close> turns every cell of these columns that
  equals a listed value into a missing value. An integer column in which a value was
  replaced becomes a float column.
\<close>

definition is_number :: "dtype \<Rightarrow> bool" where
  "is_number d = (d = Int64 \<or> d = Float64)"

definition to_replace :: "cell list" where
  "to_replace = [Num (- 999), Num (- 999.0), Str ''N/A'']"

fun replace_row :: "dtype list \<Rightarrow> cell list \<Rightarrow> cell list" where
  "replace_row (d # ds) (c # cs) =
     (if is_number d \<and> c \<in> set to_replace then Null else c) # replace_row ds cs"
| "replace_row ds r = r"

definition replace_numeric :: "dataframe \<Rightarrow> dataframe" where
  "replace_numeric df =
     \<lparr>columns =
        map (\<lambda>(n, d).
               (n, if d = Int64 \<and> list_ex (\<lambda>r. row_get (names df) r n \<in> set to_replace) (rows df)
                   then Float64 else d))
            (columns df),
      rows = map (replace_row (dtypes df)) (rows df)\<rparr>"

text \<open>\<open>dropna(subset=..., how='all')\<close>: a row goes when all its cells in the subset are missing.\<close>

definition dropna_all :: "string list \<Rightarrow> dataframe \<Rightarrow> dataframe" where
  "dropna_all subset_cols df =
     df\<lparr>rows := filter (\<lambda>r. list_ex (\<lambda>n. row_get (names df) r n \<noteq> Null) subset_cols) (rows df)\<rparr>"

definition clean_data :: "dataframe \<Rightarrow> dataframe" where
  "clean_data df =
     (if df_empty df then df
      else
        (let df_clean = replace_numeric df;
             aod_cols = extract_aod_columns (names df_clean)
         in if aod_cols \<noteq> [] then dropna_all (map snd aod_cols) df_clean else df_clean))"

subsection \<open>\<open>calculate_statistics\<close>\<close>

text \<open>
  The statistics of pandas on a non-empty series of numbers, in exact arithmetic:
  \<open>mean\<close>, \<open>median\<close>, \<open>std\<close> (\<open>ddof=1\<close>; NaN, here \<^term>\<open>None\<close>, for a single value),
  \<open>min\<close>, \<open>max\<close> and \<open>quantile\<close> (linear interpolation).
\<close>

definition series_mean :: "real list \<Rightarrow> real" where
  "series_mean xs = sum_list xs / real (length xs)"

definition series_median :: "real list \<Rightarrow> real" where
  "series_median xs =
     (let s = sort xs; n = length xs
      in if even n then (s ! (n div 2 - 1) + s ! (n div 2)) / 2 else s ! (n div 2))"

definition series_std :: "real list \<Rightarrow> real option" where
  "series_std xs =
     (if length xs < 2 then None
      else Some (sqrt (sum_list (map (\<lambda>x. (x - series_mean xs)\<^sup>2) xs) / real (length xs - 1))))"

definition series_min :: "real list \<Rightarrow> real" where
  "series_min xs = fold min (tl xs) (hd xs)"

definition series_max :: "real list \<Rightarrow> real" where
  "series_max xs = fold max (tl xs) (hd xs)"

definition series_quantile :: "real \<Rightarrow> real list \<Rightarrow> real" where
  "series_quantile q xs =
     (let s = sort xs;
          h = real (length xs - 1) * q;
          lo = nat \<lfloor>h\<rfloor>;
          hi = min (lo + 1) (length xs - 1)
      in s ! lo + (h - real lo) * (s ! hi - s ! lo))"

record stats =
  count' :: nat
  mean :: real
  median :: real
  std :: "real option"
  min' :: real
  max' :: real
  q25 :: real
  q75 :: real

text \<open>
  \<open>Series.dropna()\<close>, and the numbers of a series; a cell that is no number makes the
  arithmetic raise \<open>TypeError\<close>.
\<close>

definition dropna :: "cell list \<Rightarrow> cell list" where
  "dropna cs = filter (\<lambda>c. c \<noteq> Null) cs"

fun numbers :: "cell list \<Rightarrow> real list option" where
  "numbers [] = Some []"
| "numbers (Num x # cs) = (case numbers cs of Some xs \<Rightarrow> Some (x # xs) | None \<Rightarrow> None)"
| "numbers (c # cs) = None"

text \<open>The numbers among the cells of a column, in the order of the rows.\<close>

fun values_of :: "cell list \<Rightarrow> real list" where
  "values_of [] = []"
| "values_of (Num x # cs) = x # values_of cs"
| "values_of (c # cs) = values_of cs"

text \<open>A cell of a numeric column: a number or a missing value.\<close>

fun numeric_cell :: "cell \<Rightarrow> bool" where
  "numeric_cell Null = True"
| "numeric_cell (Num x) = True"
| "numeric_cell c = False"

text \<open>The empty dictionary \<open>{}\<close> the function returns is \<^term>\<open>None\<close>.\<close>

definition calculate_statistics :: "dataframe \<Rightarrow> nat \<Rightarrow> exn + stats option" where
  "calculate_statistics df wavelength =
     (let aod_cols = extract_aod_columns (names df)
      in case map_of aod_cols wavelength of
           None \<Rightarrow> Inr None
         | Some col_name \<Rightarrow>
             (case get_column df col_name of
                Inl e \<Rightarrow> Inl e
              | Inr series \<Rightarrow>
                  (let data = dropna series
                   in if data = [] then Inr None
                      else
                        (case numbers data of
                           None \<Rightarrow> Inl TypeError
                         | Some xs \<Rightarrow>
                             Inr (Some \<lparr>count' = length xs,
                                        mean = series_mean xs,
                                        median = series_median xs,
                                        std = series_std xs,
                                        min' = series_min xs,
                                        max' = series_max xs,
                                        q25 = series_quantile 0.25 xs,
                                        q75 = series_quantile 0.75 xs\<rparr>)))))"

section \<open>Application (\<open>main\<close>)\<close>

text \<open>
  The widgets of the sidebar are the inputs of one run of \<open>main\<close>. The model follows
  \<open>main\<close> up to the table stored in the session; the rendering that follows sends no
  request and is left out.
\<close>

record inputs =
  selected_site :: string
  start_date :: date
  end_date :: date
  data_level :: string
  avg_type :: string
  selected_wavelengths :: "nat list"
  download_data :: bool

text \<open>\<open>start_date > end_date\<close> on \<open>datetime.date\<close>: year, then month, then day.\<close>

definition date_gt :: "date \<Rightarrow> date \<Rightarrow> bool" where
  "date_gt a b =
     (year a > year b
      \<or> (year a = year b \<and> (month a > month b \<or> (month a = month b \<and> day a > day b))))"

definition show_message :: "string \<Rightarrow> world \<Rightarrow> world" where
  "show_message m w = w\<lparr>shown := shown w @ [m]\<rparr>"

definition main :: "library \<Rightarrow> inputs \<Rightarrow> world \<Rightarrow> world" where
  "main L inp w =
     (case get_sites_list L w of (sites_df, w1) \<Rightarrow>
        if sites_df = [] then show_message ''Failed to load AERONET sites.'' w1
        else if date_gt (start_date inp) (end_date inp)
          then show_message ''Start date must be before end date!'' w1
        else if selected_wavelengths inp = []
          then show_message ''Please select at least one wavelength.'' w1
        else if download_data inp then
          (case get_aod_data L (start_date inp) (end_date inp) (selected_site inp)
                  (data_level inp) (avg_type inp) w1 of
             (Inl e, w2) \<Rightarrow> show_message ''Error downloading data'' w2
           | (Inr raw_data, w2) \<Rightarrow>
               if df_empty raw_data then show_message ''No data available'' w2
               else w2\<lparr>session_aod_data := Some (clean_data raw_data)\<rparr>)
        else w1)"

section \<open>A small instance of the libraries, for evaluating the model\<close>

text \<open>
  A reader of comma-separated text that keeps every field as a string, parsers that
  know a few strings (the timestamps are nanoseconds since 1970, UTC), a stable sort by
  timestamp and a server that answers every request with the same text.
\<close>

definition simple_read_csv :: "string \<Rightarrow> exn + dataframe" where
  "simple_read_csv t =
     (case split_on newline t of
        [] \<Rightarrow> Inl (ParserError ''no columns'')
      | header # body \<Rightarrow>
          if header = [] then Inl (ParserError ''no columns'')
          else Inr \<lparr>columns = map (\<lambda>n. (n, Object)) (split_on CHR '','' header),
                    rows = map (\<lambda>l. map (\<lambda>f. if f = [] then Null else Str f) (split_on CHR '','' l))
                               body\<rparr>)"

definition known_times :: "(string \<times> int) list" where
  "known_times =
     [(''01:01:2020 00:00:00'', 1577836800000000000),
      (''01:01:2020 06:00:00'', 1577858400000000000),
      (''02:01:2020 00:00:00'', 1577923200000000000),
      (''03:01:2020 00:00:00'', 1578009600000000000)]"

definition known_floats :: "(string \<times> real) list" where
  "known_floats = [(''0'', 0), (''1.5'', 1.5), (''-76.84'', - 76.84), (''38.99'', 38.99), (''87'', 87)]"

definition stable_sort :: "(cell list \<Rightarrow> cell) \<Rightarrow> cell list list \<Rightarrow> cell list list" where
  "stable_sort k rs = sort_key (\<lambda>r. ts_key (k r)) rs"

definition served :: "string \<Rightarrow> library" where
  "served body =
     \<lparr>http_get = (\<lambda>req. Inr \<lparr>status_code = 200, response_text = body\<rparr>),
      raise_for_status = (\<lambda>r. None),
      read_csv = simple_read_csv,
      to_datetime_fmt = map_of known_times,
      to_datetime = map_of known_times,
      sort_values = stable_sort,
      py_float = map_of known_floats\<rparr>"

definition unreachable :: library where
  "unreachable = (served [])\<lparr>http_get := (\<lambda>req. Inl ''connection refused'')\<rparr>"

definition world0 :: world where
  "world0 = \<lparr>clock = 0, last_request_time = 0, sent = [], logged = [], shown = [],
            session_aod_data = None, sites_cache = None\<rparr>"

definition lines_of :: "string list \<Rightarrow> string" where
  "lines_of ls = join_with [newline] ls"

text \<open>
  A second sort that orders the rows by timestamp; it puts rows with equal timestamps
  in the reverse of their original order.
\<close>

definition unstable_sort :: "(cell list \<Rightarrow> cell) \<Rightarrow> cell list list \<Rightarrow> cell list list" where
  "unstable_sort k rs = sort_key (\<lambda>r. ts_key (k r)) (rev rs)"

definition reordering :: library where
  "reordering = (served [])\<lparr>sort_values := unstable_sort\<rparr>"

text \<open>
  A frame with a float column, an integer column and a text column, and the frame of the
  specification's example, with the column \<open>[0.1, 0.2, null, 0.4]\<close>.
\<close>

definition sample_frame :: dataframe where
  "sample_frame =
     \<lparr>columns = [(''AOD_440nm'', Float64), (''AOD_500nm'', Int64), (''Note'', Object)],
      rows = [[Num 0.1, Num (- 999), Str ''N/A''],
              [Num (- 999.0), Num (- 999), Str ''cloudy''],
              [Null, Num 3, Null]]\<rparr>"

definition example_frame :: dataframe where
  "example_frame =
     \<lparr>columns = [(''AOD_440nm'', Float64)],
      rows = [[Num 0.1], [Num 0.2], [Null], [Num 0.4]]\<rparr>"

section \<open>Facts about strings\<close>

lemma py_in_iff_sublist: "py_in sub s \<longleftrightarrow> (\<exists>ps ss. s = ps @ sub @ ss)"
proof (induction s)
  case Nil
  then show ?case by auto
next
  case (Cons c cs)
  have "sublist sub (c # cs) \<longleftrightarrow> prefix sub (c # cs) \<or> sublist sub cs"
    by (rule sublist_Cons_right)
  with Cons show ?case
    by (simp add: sublist_def)
qed

section \<open>Column resolver\<close>

lemma map_of_bind_first:
  "map_of (bind_first col ws al) =
     (case find (col_matches col) ws of
        None \<Rightarrow> map_of al
      | Some w \<Rightarrow> (map_of al)(w \<mapsto> col))"
  by (induction ws) (simp_all add: update_conv')

lemma map_of_scan_columns:
  "map_of (scan_columns cols al) w =
     (case filter (\<lambda>c. first_wavelength c = Some w) cols of
        [] \<Rightarrow> map_of al w
      | c # cs \<Rightarrow> Some (last (c # cs)))"
proof (induction cols arbitrary: al)
  case Nil
  then show ?case by simp
next
  case (Cons col cols)
  show ?case
  proof (cases "first_wavelength col = Some w")
    case True
    then have "map_of (bind_first col aod_wavelengths al) w = Some col"
      by (simp add: map_of_bind_first first_wavelength_def)
    with True Cons show ?thesis
      by (simp split: list.splits)
  next
    case False
    then have "map_of (bind_first col aod_wavelengths al) w = map_of al w"
      by (auto simp: map_of_bind_first first_wavelength_def split: option.splits)
    with False Cons show ?thesis
      by (simp split: list.splits)
  qed
qed

text \<open>
  Claim C1, as the code has it. Every column is bound to the first wavelength of the
  fixed list whose numeral it contains (provided its upper-cased name contains
  \<open>AOD\<close>), and a later column bound to the same wavelength overwrites the earlier
  one: a wavelength resolves to the last (rightmost) column bound to it, and is absent
  when no column is bound to it.
\<close>

theorem extract_aod_columns_last_match:
  "map_of (extract_aod_columns cols) w =
     (case filter (\<lambda>c. first_wavelength c = Some w) cols of
        [] \<Rightarrow> None
      | c # cs \<Rightarrow> Some (last (c # cs)))"
  by (simp add: extract_aod_columns_def map_of_scan_columns split: list.splits)

theorem extract_aod_columns_last_match_witness:
  "map_of (extract_aod_columns [''AOD_500nm'', ''AOD_440nm'', ''Site'', ''N[AOD_500nm]'']) 500
     = Some ''N[AOD_500nm]''"
proof -
  have "(case filter (\<lambda>c. first_wavelength c = Some 500)
                [''AOD_500nm'', ''AOD_440nm'', ''Site'', ''N[AOD_500nm]''] of
           [] \<Rightarrow> None
         | c # cs \<Rightarrow> Some (last (c # cs))) = Some ''N[AOD_500nm]''"
    by code_simp
  then show ?thesis
    by (simp only: extract_aod_columns_last_match)
qed

text \<open>
  Claim C1 as the specification words it (the leftmost matching column wins) fails on
  the specification's own example: for the columns \<open>AOD_440nm, AOD440_alt\<close> the
  wavelength 440 resolves to \<open>AOD440_alt\<close>.
\<close>

theorem extract_aod_columns_leftmost_counterexample:
  "map_of (extract_aod_columns [''AOD_440nm'', ''AOD440_alt'']) 440 = Some ''AOD440_alt''
   \<and> map_of (extract_aod_columns [''AOD_440nm'', ''AOD440_alt'']) 440 \<noteq> Some ''AOD_440nm''"
  by code_simp

section \<open>Locating the start of the data\<close>

text \<open>\<open>split\<close> returns at least one piece, so a response has at least one line.\<close>

lemma split_on_nonempty: "split_on sep s \<noteq> []"
  by (induction s) (auto split: list.splits)

lemma scan_header_none: "\<not> list_ex is_header lines \<Longrightarrow> scan_header i lines = 0"
  by (induction lines arbitrary: i) auto

lemma scan_header_first:
  "k < length lines \<Longrightarrow> is_header (lines ! k) \<Longrightarrow> \<not> list_ex is_header (take k lines)
   \<Longrightarrow> scan_header i lines = i + k"
proof (induction lines arbitrary: i k)
  case Nil
  then show ?case by simp
next
  case (Cons line rest)
  show ?case
  proof (cases k)
    case 0
    with Cons.prems show ?thesis by simp
  next
    case (Suc k')
    with Cons.prems have "\<not> is_header line" "k' < length rest" "is_header (rest ! k')"
      "\<not> list_ex is_header (take k' rest)"
      by auto
    with Cons.IH [of k' "Suc i"] Suc show ?thesis by simp
  qed
qed

text \<open>
  Claim C7, as the code has it. When no line of the response starts with a date marker,
  the data is taken to start at index \<open>min(6, len(lines) - 1)\<close>: at line 6 when there
  are at least seven lines, at the last line otherwise. When the first line that starts
  with a date marker has an index \<open>k > 0\<close>, the data starts at that line. In both cases
  the lines from that index on are what is parsed.
\<close>

theorem locate_data_start_cases:
  "(\<not> list_ex is_header lines \<and> lines \<noteq> [] \<longrightarrow>
      locate_data_start lines = min 6 (int (length lines) - 1)
      \<and> slice_from (locate_data_start lines) lines = drop (min 6 (length lines - 1)) lines)
   \<and> (\<forall>k. 0 < k \<and> k < length lines \<and> is_header (lines ! k)
            \<and> \<not> list_ex is_header (take k lines) \<longrightarrow>
          locate_data_start lines = int k
          \<and> slice_from (locate_data_start lines) lines = drop k lines)"
proof (intro conjI allI impI)
  assume a: "\<not> list_ex is_header lines \<and> lines \<noteq> []"
  then show v: "locate_data_start lines = min 6 (int (length lines) - 1)"
    by (simp add: locate_data_start_def scan_header_none)
  from a have "0 < length lines" by simp
  then have "nat (min 6 (int (length lines) - 1)) = min 6 (length lines - 1)" by linarith
  moreover from a have "0 \<le> min 6 (int (length lines) - 1)" by (cases lines) auto
  ultimately show "slice_from (locate_data_start lines) lines = drop (min 6 (length lines - 1)) lines"
    by (simp add: v slice_from_def)
next
  fix k
  assume a: "0 < k \<and> k < length lines \<and> is_header (lines ! k) \<and> \<not> list_ex is_header (take k lines)"
  then have "scan_header 0 lines = k"
    using scan_header_first [of k lines 0] by simp
  with a show v: "locate_data_start lines = int k"
    by (simp add: locate_data_start_def)
  show "slice_from (locate_data_start lines) lines = drop k lines"
    by (simp add: v slice_from_def)
qed

theorem locate_data_start_cases_witness:
  "slice_from
     (locate_data_start
        [''m0'', ''m1'', ''m2'', ''m3'', ''m4'', ''m5'', ''Site,AOD_440nm'', ''GSFC,0.2''])
     [''m0'', ''m1'', ''m2'', ''m3'', ''m4'', ''m5'', ''Site,AOD_440nm'', ''GSFC,0.2'']
     = [''Site,AOD_440nm'', ''GSFC,0.2'']
   \<and> locate_data_start
        [''m0'', ''m1'', ''Date(dd:mm:yyyy),Time(hh:mm:ss)'', ''01:01:2020,00:00:00''] = 2"
proof -
  let ?a = "[''m0'', ''m1'', ''m2'', ''m3'', ''m4'', ''m5'', ''Site,AOD_440nm'', ''GSFC,0.2'']"
  let ?b = "[''m0'', ''m1'', ''Date(dd:mm:yyyy),Time(hh:mm:ss)'', ''01:01:2020,00:00:00'']"
  have "\<not> list_ex is_header ?a \<and> ?a \<noteq> []"
    by (simp add: is_header_def startswith_def)
  with locate_data_start_cases [of ?a]
  have 1: "slice_from (locate_data_start ?a) ?a = drop (min 6 (length ?a - 1)) ?a"
    by blast
  have "0 < (2::nat) \<and> 2 < length ?b \<and> is_header (?b ! 2) \<and> \<not> list_ex is_header (take 2 ?b)"
    by (simp add: is_header_def startswith_def)
  with locate_data_start_cases [of ?b]
  have 2: "locate_data_start ?b = int 2"
    by blast
  from 1 2 show ?thesis by simp
qed

text \<open>
  Claim C7 as the specification words it (the fallback is line 6) fails for a response
  of three lines without a date marker: the data is taken to start at line 2, the last
  line.
\<close>

theorem locate_data_start_line6_counterexample:
  "\<not> list_ex is_header [''m0'', ''m1'', ''m2'']
   \<and> locate_data_start [''m0'', ''m1'', ''m2''] = 2
   \<and> data_text (lines_of [''m0'', ''m1'', ''m2'']) = ''m2''"
  by (simp add: is_header_def startswith_def locate_data_start_def data_text_def lines_of_def
      newline_def strip_def is_space_def slice_from_def)

text \<open>
  A header in the very first line leaves \<open>data_start\<close> at 0, the value that also means
  that no header was found, and the fallback applies.
\<close>

lemma locate_data_start_header_first:
  "locate_data_start
     [''Date(dd:mm:yyyy),Time(hh:mm:ss)'', ''01:01:2020,00:00:00'', ''02:01:2020,00:00:00''] = 2"
  by (simp add: is_header_def startswith_def locate_data_start_def)

section \<open>Fetching (\<open>get_aod_data\<close>)\<close>

lemma sent_respect_rate_limit [simp]: "sent (respect_rate_limit d w) = sent w"
  by (simp add: respect_rate_limit_def Let_def)



section \<open>The site directory (\<open>get_sites_list\<close>)\<close>

lemma try_sites_get_fails:
  "http_get L sites_request = Inl cause \<Longrightarrow> try_sites L = Inl (RequestException cause)"
  by (simp add: try_sites_def)

lemma try_sites_status_fails:
  "http_get L sites_request = Inr response \<Longrightarrow> raise_for_status L response = Some cause
   \<Longrightarrow> try_sites L = Inl (RequestException cause)"
  by (simp add: try_sites_def)

text \<open>
  A line with a longitude, a latitude or a non-blank elevation that \<open>float\<close> rejects
  makes the whole parse fail with \<open>ValueError\<close>, wherever the line stands.
\<close>

lemma parse_site_lines_error: "parse_site_lines L ls = Inl e \<Longrightarrow> \<exists>v. e = ValueError v"
  by (induction ls) (auto simp: Let_def split: if_splits option.splits sum.splits)

lemma parse_site_lines_bad_line:
  assumes "line \<in> set ls" and "strip line \<noteq> []" and "4 \<le> length (split_on CHR '','' line)"
    and "py_float L (strip (split_on CHR '','' line ! 1)) = None
         \<or> py_float L (strip (split_on CHR '','' line ! 2)) = None
         \<or> (strip (split_on CHR '','' line ! 3) \<noteq> []
              \<and> py_float L (strip (split_on CHR '','' line ! 3)) = None)"
  shows "\<exists>v. parse_site_lines L ls = Inl (ValueError v)"
proof -
  from assms have "\<exists>e. parse_site_lines L ls = Inl e"
  proof (induction ls)
    case Nil
    then show ?case by simp
  next
    case (Cons l rest)
    show ?case
    proof (cases "l = line")
      case True
      with Cons.prems show ?thesis
        by (auto simp: Let_def split: option.splits sum.splits)
    next
      case False
      with Cons have "\<exists>e. parse_site_lines L rest = Inl e" by simp
      then show ?thesis
        by (auto simp: Let_def split: option.splits sum.splits)
    qed
  qed
  then show ?thesis
    using parse_site_lines_error by blast
qed

lemma fetch_sites_list_success:
  "try_sites L = Inr sites \<Longrightarrow>
     fetch_sites_list L w = (sites, w\<lparr>sent := sent w @ [sites_request]\<rparr>)"
  by (simp add: fetch_sites_list_def Let_def)

lemma fetch_sites_list_failure:
  "try_sites L = Inl e \<Longrightarrow>
     fetch_sites_list L w =
       ([], w\<lparr>sent := sent w @ [sites_request],
               logged := logged w @ [Error ''Error fetching sites list'' e]\<rparr>)"
  by (simp add: fetch_sites_list_def Let_def)

text \<open>
  The cache: a fresh entry is returned without a request or a log record; a call that
  runs the body stores what it returns, the empty result of a failure included.
\<close>

lemma get_sites_list_cached:
  "cached_sites w = Some sites \<Longrightarrow> get_sites_list L w = (sites, w)"
  by (simp add: get_sites_list_def)

lemma get_sites_list_stores:
  "cached_sites w = None \<Longrightarrow>
     cached_sites (snd (get_sites_list L w)) = Some (fst (get_sites_list L w))"
  by (simp add: get_sites_list_def cached_sites_def fetch_sites_list_def Let_def
      split: sum.splits prod.splits)

text \<open>
  Claim C8. \<open>get_sites_list\<close> returns a value in every case: the handler of
  \<open>Exception\<close> covers the whole body. Whenever the body runs (no fresh entry in the
  cache) and
  \<^item> the request raises, or
  \<^item> the status check raises, or
  \<^item> a line after the header that is not blank and has at least four fields has a
    longitude, a latitude or a non-blank elevation that \<open>float\<close> rejects,
  the result is the empty list of sites, one request was sent, and the error is appended
  to the log: the \<open>RequestException\<close> with its cause in the first two cases, a
  \<open>ValueError\<close> in the third.
\<close>

theorem get_sites_list_failure:
  assumes "cached_sites w = None"
  shows "(\<forall>cause. http_get L sites_request = Inl cause \<longrightarrow>
            get_sites_list L w =
              ([], w\<lparr>sent := sent w @ [sites_request],
                      logged := logged w @ [Error ''Error fetching sites list'' (RequestException cause)],
                      sites_cache := Some (clock w, [])\<rparr>))
     \<and> (\<forall>response cause.
            http_get L sites_request = Inr response \<and> raise_for_status L response = Some cause \<longrightarrow>
            get_sites_list L w =
              ([], w\<lparr>sent := sent w @ [sites_request],
                      logged := logged w @ [Error ''Error fetching sites list'' (RequestException cause)],
                      sites_cache := Some (clock w, [])\<rparr>))
     \<and> (\<forall>response line.
            http_get L sites_request = Inr response \<and> raise_for_status L response = None
            \<and> line \<in> set (drop 1 (split_on newline (strip (response_text response))))
            \<and> strip line \<noteq> [] \<and> 4 \<le> length (split_on CHR '','' line)
            \<and> (py_float L (strip (split_on CHR '','' line ! 1)) = None
                \<or> py_float L (strip (split_on CHR '','' line ! 2)) = None
                \<or> (strip (split_on CHR '','' line ! 3) \<noteq> []
                     \<and> py_float L (strip (split_on CHR '','' line ! 3)) = None)) \<longrightarrow>
            fst (get_sites_list L w) = []
            \<and> sent (snd (get_sites_list L w)) = sent w @ [sites_request]
            \<and> (\<exists>v. logged (snd (get_sites_list L w))
                      = logged w @ [Error ''Error fetching sites list'' (ValueError v)]))"
proof -
  have A: "\<forall>cause. http_get L sites_request = Inl cause \<longrightarrow>
            get_sites_list L w =
              ([], w\<lparr>sent := sent w @ [sites_request],
                      logged := logged w @ [Error ''Error fetching sites list'' (RequestException cause)],
                      sites_cache := Some (clock w, [])\<rparr>)"
  proof (intro allI impI)
    fix cause
    assume "http_get L sites_request = Inl cause"
    then have "try_sites L = Inl (RequestException cause)"
      by (rule try_sites_get_fails)
    with assms show "get_sites_list L w =
        ([], w\<lparr>sent := sent w @ [sites_request],
                logged := logged w @ [Error ''Error fetching sites list'' (RequestException cause)],
                sites_cache := Some (clock w, [])\<rparr>)"
      by (simp add: get_sites_list_def fetch_sites_list_failure)
  qed
  have B: "\<forall>response cause.
            http_get L sites_request = Inr response \<and> raise_for_status L response = Some cause \<longrightarrow>
            get_sites_list L w =
              ([], w\<lparr>sent := sent w @ [sites_request],
                      logged := logged w @ [Error ''Error fetching sites list'' (RequestException cause)],
                      sites_cache := Some (clock w, [])\<rparr>)"
  proof (intro allI impI)
    fix response cause
    assume "http_get L sites_request = Inr response \<and> raise_for_status L response = Some cause"
    then have "try_sites L = Inl (RequestException cause)"
      by (simp add: try_sites_status_fails)
    with assms show "get_sites_list L w =
        ([], w\<lparr>sent := sent w @ [sites_request],
                logged := logged w @ [Error ''Error fetching sites list'' (RequestException cause)],
                sites_cache := Some (clock w, [])\<rparr>)"
      by (simp add: get_sites_list_def fetch_sites_list_failure)
  qed
  have C: "\<forall>response line.
            http_get L sites_request = Inr response \<and> raise_for_status L response = None
            \<and> line \<in> set (drop 1 (split_on newline (strip (response_text response))))
            \<and> strip line \<noteq> [] \<and> 4 \<le> length (split_on CHR '','' line)
            \<and> (py_float L (strip (split_on CHR '','' line ! 1)) = None
                \<or> py_float L (strip (split_on CHR '','' line ! 2)) = None
                \<or> (strip (split_on CHR '','' line ! 3) \<noteq> []
                     \<and> py_float L (strip (split_on CHR '','' line ! 3)) = None)) \<longrightarrow>
            fst (get_sites_list L w) = []
            \<and> sent (snd (get_sites_list L w)) = sent w @ [sites_request]
            \<and> (\<exists>v. logged (snd (get_sites_list L w))
                      = logged w @ [Error ''Error fetching sites list'' (ValueError v)])"
  proof (intro allI impI)
    fix response line
    assume a: "http_get L sites_request = Inr response \<and> raise_for_status L response = None
            \<and> line \<in> set (drop 1 (split_on newline (strip (response_text response))))
            \<and> strip line \<noteq> [] \<and> 4 \<le> length (split_on CHR '','' line)
            \<and> (py_float L (strip (split_on CHR '','' line ! 1)) = None
                \<or> py_float L (strip (split_on CHR '','' line ! 2)) = None
                \<or> (strip (split_on CHR '','' line ! 3) \<noteq> []
                     \<and> py_float L (strip (split_on CHR '','' line ! 3)) = None))"
    then obtain v where
      "parse_site_lines L (drop 1 (split_on newline (strip (response_text response))))
         = Inl (ValueError v)"
      using parse_site_lines_bad_line
        [of line "drop 1 (split_on newline (strip (response_text response)))" L]
      by blast
    with a have t: "try_sites L = Inl (ValueError v)"
      by (simp add: try_sites_def)
    with assms have g: "get_sites_list L w =
        ([], w\<lparr>sent := sent w @ [sites_request],
                logged := logged w @ [Error ''Error fetching sites list'' (ValueError v)],
                sites_cache := Some (clock w, [])\<rparr>)"
      by (simp add: get_sites_list_def fetch_sites_list_failure)
    then show "fst (get_sites_list L w) = []
        \<and> sent (snd (get_sites_list L w)) = sent w @ [sites_request]
        \<and> (\<exists>v. logged (snd (get_sites_list L w))
                  = logged w @ [Error ''Error fetching sites list'' (ValueError v)])"
      by simp
  qed
  show ?thesis
    by (rule conjI [OF A conjI [OF B C]])
qed

theorem get_sites_list_failure_witness:
  "get_sites_list unreachable world0 =
     ([], world0\<lparr>sent := [sites_request],
                  logged := [Error ''Error fetching sites list''
                               (RequestException ''connection refused'')],
                  sites_cache := Some (0, [])\<rparr>)
   \<and> get_sites_list ((served [])\<lparr>raise_for_status := (\<lambda>r. Some ''503 Server Error'')\<rparr>) world0 =
     ([], world0\<lparr>sent := [sites_request],
                  logged := [Error ''Error fetching sites list''
                               (RequestException ''503 Server Error'')],
                  sites_cache := Some (0, [])\<rparr>)
   \<and> fst (get_sites_list
            (served (lines_of [''Site_Name,Longitude,Latitude,Elevation'',
                               ''GSFC,-76.84,38.99,87'', ''Nowhere,0,north,'']))
            world0) = []
   \<and> logged (snd (get_sites_list
            (served (lines_of [''Site_Name,Longitude,Latitude,Elevation'',
                               ''GSFC,-76.84,38.99,87'', ''Nowhere,0,north,'']))
            world0))
       = [Error ''Error fetching sites list'' (ValueError ''north'')]"
proof -
  let ?S = "(served [])\<lparr>raise_for_status := (\<lambda>r. Some ''503 Server Error'')\<rparr>"
  let ?body = "lines_of [''Site_Name,Longitude,Latitude,Elevation'',
                         ''GSFC,-76.84,38.99,87'', ''Nowhere,0,north,'']"
  let ?B = "served ?body"
  let ?response = "\<lparr>status_code = 200, response_text = ?body\<rparr>"
  let ?line = "''Nowhere,0,north,''"
  have miss: "cached_sites world0 = None"
    by (simp add: cached_sites_def world0_def)
  have a: "http_get unreachable sites_request = Inl ''connection refused''"
    by (simp add: unreachable_def served_def)
  have b: "http_get ?S sites_request = Inr \<lparr>status_code = 200, response_text = []\<rparr>
      \<and> raise_for_status ?S \<lparr>status_code = 200, response_text = []\<rparr> = Some ''503 Server Error''"
    by (simp add: served_def)
  have c: "http_get ?B sites_request = Inr ?response \<and> raise_for_status ?B ?response = None
      \<and> ?line \<in> set (drop 1 (split_on newline (strip (response_text ?response))))
      \<and> strip ?line \<noteq> [] \<and> 4 \<le> length (split_on CHR '','' ?line)
      \<and> (py_float ?B (strip (split_on CHR '','' ?line ! 1)) = None
          \<or> py_float ?B (strip (split_on CHR '','' ?line ! 2)) = None
          \<or> (strip (split_on CHR '','' ?line ! 3) \<noteq> []
               \<and> py_float ?B (strip (split_on CHR '','' ?line ! 3)) = None))"
    by (simp add: served_def lines_of_def newline_def strip_def is_space_def known_floats_def)
  note t = get_sites_list_failure [OF miss]
  from t [of unreachable] a
  have 1: "get_sites_list unreachable world0 =
      ([], world0\<lparr>sent := sent world0 @ [sites_request],
                   logged := logged world0 @ [Error ''Error fetching sites list''
                                                (RequestException ''connection refused'')],
                   sites_cache := Some (clock world0, [])\<rparr>)"
    by blast
  from t [of ?S] b
  have 2: "get_sites_list ?S world0 =
      ([], world0\<lparr>sent := sent world0 @ [sites_request],
                   logged := logged world0 @ [Error ''Error fetching sites list''
                                                (RequestException ''503 Server Error'')],
                   sites_cache := Some (clock world0, [])\<rparr>)"
    by blast
  from t [of ?B] c
  have 3: "fst (get_sites_list ?B world0) = []
      \<and> (\<exists>v. logged (snd (get_sites_list ?B world0))
                = logged world0 @ [Error ''Error fetching sites list'' (ValueError v)])"
    by blast
  have "try_sites ?B = Inl (ValueError ''north'')"
    by (simp add: try_sites_def served_def lines_of_def newline_def strip_def is_space_def
        known_floats_def Let_def)
  with miss have 4: "logged (snd (get_sites_list ?B world0))
       = [Error ''Error fetching sites list'' (ValueError ''north'')]"
    by (simp add: get_sites_list_def fetch_sites_list_failure world0_def)
  from 1 2 3 4 show ?thesis
    by (simp add: world0_def)
qed

section \<open>The date check of \<open>main\<close>\<close>

lemma sent_get_sites_list:
  "sent (snd (get_sites_list L w))
     = sent w @ (if cached_sites w = None then [sites_request] else [])"
  by (auto simp: get_sites_list_def fetch_sites_list_def Let_def split: sum.splits option.splits)

lemma sent_show_message [simp]: "sent (show_message m w) = sent w"
  by (simp add: show_message_def)

lemma session_show_message [simp]: "session_aod_data (show_message m w) = session_aod_data w"
  by (simp add: show_message_def)

lemma session_get_sites_list: "session_aod_data (snd (get_sites_list L w)) = session_aod_data w"
  by (auto simp: get_sites_list_def fetch_sites_list_def Let_def split: sum.splits option.splits)

text \<open>
  Claim C9. When the start date is after the end date, a run of \<open>main\<close> sends at most
  one request, the one for the site directory (none when the directory comes from the
  cache), and none to the measurement endpoint; the table of the session is left as it
  was.
\<close>

theorem main_rejects_inverted_range:
  "date_gt (start_date inp) (end_date inp) \<Longrightarrow>
     sent (main L inp w) = sent w @ (if cached_sites w = None then [sites_request] else [])
     \<and> url sites_request \<noteq> base_url
     \<and> filter (\<lambda>r. url r = base_url) (sent (main L inp w)) = filter (\<lambda>r. url r = base_url) (sent w)
     \<and> session_aod_data (main L inp w) = session_aod_data w"
proof -
  assume gt: "date_gt (start_date inp) (end_date inp)"
  obtain sites w1 where g: "get_sites_list L w = (sites, w1)" by (cases "get_sites_list L w")
  from g have s: "sent w1 = sent w @ (if cached_sites w = None then [sites_request] else [])"
    using sent_get_sites_list [of L w] by simp
  from g have a: "session_aod_data w1 = session_aod_data w"
    using session_get_sites_list [of L w] by simp
  from gt g have m: "sent (main L inp w) = sent w1 \<and> session_aod_data (main L inp w) = session_aod_data w1"
    by (simp add: main_def)
  have u: "url sites_request \<noteq> base_url"
    by (simp add: sites_request_def sites_url_def base_url_def)
  from m s a u show ?thesis by simp
qed

theorem main_rejects_inverted_range_witness:
  "sent (main (served (lines_of [''Site_Name,Longitude,Latitude,Elevation'', ''GSFC,-76.84,38.99,87'']))
           \<lparr>selected_site = ''GSFC'', start_date = \<lparr>year = 2020, month = 2, day = 1\<rparr>,
            end_date = \<lparr>year = 2020, month = 1, day = 31\<rparr>, data_level = ''1.5'', avg_type = ''10'',
            selected_wavelengths = [440], download_data = True\<rparr> world0)
     = [sites_request]"
proof -
  let ?inp = "\<lparr>selected_site = ''GSFC'', start_date = \<lparr>year = 2020, month = 2, day = 1\<rparr>,
            end_date = \<lparr>year = 2020, month = 1, day = 31\<rparr>, data_level = ''1.5'', avg_type = ''10'',
            selected_wavelengths = [440], download_data = True\<rparr>"
  have "date_gt (start_date ?inp) (end_date ?inp)"
    by (simp add: date_gt_def)
  from main_rejects_inverted_range [OF this] show ?thesis
    by (simp add: world0_def cached_sites_def)
qed

text \<open>The fetcher itself has no such check: called with any two dates it sends the request.\<close>

lemma get_aod_data_sends:
  "sent (snd (get_aod_data L start_dt end_dt site level avg w))
     = sent w @ [aod_request start_dt end_dt site level avg]"
  unfolding get_aod_data_def Let_def
  by (auto split: sum.splits option.splits)

section \<open>Normalising the parsed frame\<close>

lemma normalize_frame_empty: "df_empty df \<Longrightarrow> normalize_frame L df = Inr df"
  by (simp add: normalize_frame_def)

lemma normalize_frame_no_dates:
  "\<not> df_empty df \<Longrightarrow> ''Date(dd:mm:yyyy)'' \<notin> set (names df)
   \<Longrightarrow> \<not> list_ex (py_in ''Date_'') (names df)
   \<Longrightarrow> normalize_frame L df = Inr (sort_by_datetime L df)"
  by (simp add: normalize_frame_def resolve_datetime_def)

text \<open>
  Claim C2, as the code has it. When the response is not blank and parses to a frame
  that is not empty and has neither a column \<open>Date(dd:mm:yyyy)\<close> nor a column whose
  name contains \<open>Date_\<close>, \<open>get_aod_data\<close> raises nothing: it returns the parsed frame
  without a resolved timestamp (sorted by the column \<open>datetime\<close> if the response itself
  had a column of that name, unchanged otherwise). A frame that is empty is returned as
  it is.
\<close>

theorem get_aod_data_no_date_columns:
  fixes L start_dt end_dt site level avg w response df
  defines "req \<equiv> aod_request start_dt end_dt site level avg"
  assumes "http_get L req = Inr response" and "raise_for_status L response = None"
    and "strip (response_text response) \<noteq> []"
    and "read_csv L (data_text (response_text response)) = Inr df"
  shows "(df_empty df \<longrightarrow> fst (get_aod_data L start_dt end_dt site level avg w) = Inr df)
     \<and> (\<not> df_empty df \<and> ''Date(dd:mm:yyyy)'' \<notin> set (names df)
          \<and> \<not> list_ex (py_in ''Date_'') (names df) \<longrightarrow>
        fst (get_aod_data L start_dt end_dt site level avg w) = Inr (sort_by_datetime L df))
     \<and> (''datetime'' \<notin> set (names df) \<longrightarrow> sort_by_datetime L df = df)"
  using assms
  by (simp add: get_aod_data_def Let_def parse_body_def normalize_frame_no_dates
      normalize_frame_empty sort_by_datetime_def)

theorem get_aod_data_no_date_columns_witness:
  "fst (get_aod_data
          (served (lines_of [''AERONET Version 3'', ''La_Paz'', ''Version 3: AOD Level 2.0'',
                             ''Data are quality assured'', ''Contact: PI'', ''Daily averages'',
                             ''Station,AOD_500nm'', ''La_Paz,0.1'', ''La_Paz,0.3'']))
          \<lparr>year = 2021, month = 6, day = 1\<rparr> \<lparr>year = 2021, month = 6, day = 2\<rparr>
          ''La_Paz'' ''20'' ''20'' world0)
     = Inr \<lparr>columns = [(''Station'', Object), (''AOD_500nm'', Object)],
            rows = [[Str ''La_Paz'', Str ''0.1''], [Str ''La_Paz'', Str ''0.3'']]\<rparr>"
proof -
  let ?body = "lines_of [''AERONET Version 3'', ''La_Paz'', ''Version 3: AOD Level 2.0'',
                         ''Data are quality assured'', ''Contact: PI'', ''Daily averages'',
                         ''Station,AOD_500nm'', ''La_Paz,0.1'', ''La_Paz,0.3'']"
  let ?df = "\<lparr>columns = [(''Station'', Object), (''AOD_500nm'', Object)],
              rows = [[Str ''La_Paz'', Str ''0.1''], [Str ''La_Paz'', Str ''0.3'']]\<rparr>"
  let ?d1 = "\<lparr>year = 2021, month = 6, day = 1\<rparr>" and ?d2 = "\<lparr>year = 2021, month = 6, day = 2\<rparr>"
  let ?response = "\<lparr>status_code = 200, response_text = ?body\<rparr>"
  have 1: "http_get (served ?body) (aod_request ?d1 ?d2 ''La_Paz'' ''20'' ''20'') = Inr ?response"
    and 2: "raise_for_status (served ?body) ?response = None"
    by (simp_all add: served_def)
  have 3: "strip (response_text ?response) \<noteq> []"
    by (simp add: lines_of_def strip_def is_space_def)
  have "data_text ?body = ''Station,AOD_500nm'' @ [newline] @ ''La_Paz,0.1'' @ [newline] @ ''La_Paz,0.3''"
    by (simp add: data_text_def lines_of_def newline_def strip_def is_space_def
        locate_data_start_def is_header_def startswith_def slice_from_def)
  then have 4: "read_csv (served ?body) (data_text (response_text ?response)) = Inr ?df"
    by (simp add: served_def simple_read_csv_def newline_def)
  have 5: "\<not> df_empty ?df \<and> ''Date(dd:mm:yyyy)'' \<notin> set (names ?df)
      \<and> \<not> list_ex (py_in ''Date_'') (names ?df)"
    and 8: "''datetime'' \<notin> set (names ?df)"
    by (simp_all add: df_empty_def names_def)
  from get_aod_data_no_date_columns [OF 1 2 3 4, of world0] 5 8
  show ?thesis by simp
qed

text \<open>
  Claim C2 as the specification words it (such a response is an error) fails: for a
  response of six lines of metadata, the header \<open>Site,AOD_440nm\<close> and one data row,
  \<open>get_aod_data\<close> returns the table.
\<close>

theorem get_aod_data_no_error_counterexample:
  "fst (get_aod_data
          (served (lines_of [''AERONET Version 3'', ''GSFC'', ''Version 3: AOD Level 1.5'',
                             ''Data are preliminary'', ''Contact: PI'', ''All points'',
                             ''Site,AOD_440nm'', ''GSFC,0.2'']))
          \<lparr>year = 2020, month = 1, day = 1\<rparr> \<lparr>year = 2020, month = 1, day = 31\<rparr>
          ''GSFC'' ''15'' ''10'' world0)
     = Inr \<lparr>columns = [(''Site'', Object), (''AOD_440nm'', Object)],
            rows = [[Str ''GSFC'', Str ''0.2'']]\<rparr>"
  by (simp add: get_aod_data_def Let_def served_def parse_body_def data_text_def lines_of_def
      newline_def strip_def is_space_def locate_data_start_def is_header_def startswith_def
      slice_from_def simple_read_csv_def normalize_frame_def df_empty_def resolve_datetime_def
      names_def sort_by_datetime_def)

section \<open>Sorting by the resolved timestamp\<close>



lemma names_sort_by_datetime [simp]: "names (sort_by_datetime L df) = names df"
  by (simp add: sort_by_datetime_def names_def)

lemma columns_sort_by_datetime [simp]: "columns (sort_by_datetime L df) = columns df"
  by (simp add: sort_by_datetime_def)








text \<open>The order of the keys: timestamps ascending, a missing timestamp after all others.\<close>

lemma ts_key_order:
  "ts_key (Time x) \<le> ts_key (Time y) \<longleftrightarrow> x \<le> y"
  "ts_key (Time x) \<le> ts_key Null"
  "\<not> ts_key Null \<le> ts_key (Time x)"
  "ts_key Null \<le> ts_key Null"
  by (simp_all add: ts_key_def)



lemma reordering_sorts_by_key: "sorts_by_key reordering"
  by (simp add: sorts_by_key_def reordering_def served_def unstable_sort_def)




text \<open>
  The order of rows with equal timestamps is the library's matter: the default
  \<open>kind\<close> of \<open>sort_values\<close> is \<open>quicksort\<close>, which pandas documents as not stable, and
  the code does not ask for another. A sort that orders the rows by timestamp may
  exchange two rows of the same timestamp.
\<close>

lemma sorts_by_key_admits_reordering:
  "normalize_frame reordering
       \<lparr>columns = [(''Date(dd:mm:yyyy)'', Object), (''Time(hh:mm:ss)'', Object),
                   (''AOD_440nm'', Float64)],
        rows = [[Str ''01:01:2020'', Str ''00:00:00'', Num 0.1],
                [Str ''01:01:2020'', Str ''00:00:00'', Num 0.2]]\<rparr>
     = Inr \<lparr>columns = [(''Date(dd:mm:yyyy)'', Object), (''Time(hh:mm:ss)'', Object),
                       (''AOD_440nm'', Float64), (''datetime'', Datetime64)],
            rows = [[Str ''01:01:2020'', Str ''00:00:00'', Num 0.2, Time 1577836800000000000],
                    [Str ''01:01:2020'', Str ''00:00:00'', Num 0.1, Time 1577836800000000000]]\<rparr>"
  by (simp add: normalize_frame_def df_empty_def resolve_datetime_def names_def
      get_column_def row_get_def date_plus_time_def column_dtype_def reordering_def served_def
      known_times_def set_column_def sort_by_datetime_def unstable_sort_def ts_key_def)

text \<open>
  A date column in which every value is missing is a column of numbers, and adding the
  separator to it raises \<open>TypeError\<close>.
\<close>

lemma resolve_datetime_all_dates_missing:
  "resolve_datetime L
       \<lparr>columns = [(''Date(dd:mm:yyyy)'', Float64), (''Time(hh:mm:ss)'', Object)],
        rows = [[Null, Str ''00:00:00'']]\<rparr>
     = Inl TypeError"
  by (simp add: resolve_datetime_def names_def get_column_def row_get_def date_plus_time_def
      column_dtype_def)

section \<open>Cleaning (\<open>clean_data\<close>)\<close>

lemma names_replace_numeric [simp]: "names (replace_numeric df) = names df"
  by (simp add: names_def replace_numeric_def case_prod_unfold comp_def)

lemma rows_clean_data:
  "rows (clean_data df) =
     filter (\<lambda>r. extract_aod_columns (names df) = []
                \<or> list_ex (\<lambda>n. row_get (names df) r n \<noteq> Null)
                     (map snd (extract_aod_columns (names df))))
       (map (replace_row (dtypes df)) (rows df))"
proof (cases "df_empty df")
  case True
  show ?thesis
  proof (cases "rows df = []")
    case True
    then show ?thesis by (simp add: clean_data_def df_empty_def)
  next
    case False
    with \<open>df_empty df\<close> have c: "columns df = []" by (simp add: df_empty_def)
    then have "names df = []" "dtypes df = []" by (simp_all add: names_def dtypes_def)
    moreover have "extract_aod_columns [] = []" by (simp add: extract_aod_columns_def)
    moreover have "map (replace_row []) (rows df) = rows df"
      by (induction "rows df") (simp_all add: map_idI)
    ultimately show ?thesis using \<open>df_empty df\<close> by (simp add: clean_data_def)
  qed
next
  case False
  have r: "rows (replace_numeric df) = map (replace_row (dtypes df)) (rows df)"
    by (simp add: replace_numeric_def)
  show ?thesis
  proof (cases "extract_aod_columns (names df) = []")
    case True
    with False r show ?thesis by (simp add: clean_data_def Let_def)
  next
    case n: False
    with False r show ?thesis by (simp add: clean_data_def Let_def dropna_all_def)
  qed
qed

lemma length_replace_row [simp]: "length (replace_row ds r) = length r"
  by (induction ds r rule: replace_row.induct) simp_all

lemma replace_row_nth:
  "j < length r \<Longrightarrow>
     replace_row ds r ! j =
       (if j < length ds \<and> is_number (ds ! j) \<and> r ! j \<in> set to_replace then Null else r ! j)"
  by (induction ds r arbitrary: j rule: replace_row.induct) (auto simp: nth_Cons split: nat.splits)

lemma set_to_replace: "c \<in> set to_replace \<longleftrightarrow> c = Num (- 999) \<or> c = Str ''N/A''"
  by (auto simp: to_replace_def)

lemma sample_frame_aod_columns:
  "extract_aod_columns (names sample_frame) = [(440, ''AOD_440nm''), (500, ''AOD_500nm'')]"
  unfolding sample_frame_def names_def by code_simp

text \<open>
  Claim C4. Every row of the cleaned table is a row of the input in which each cell of
  a numeric column (\<open>int64\<close> or \<open>float64\<close>) that holds \<open>-999\<close>, \<open>-999.0\<close> or the text
  \<open>N/A\<close> has become a missing value, and every other cell is as it was. The three
  forms are treated alike.
\<close>

theorem clean_data_replaces_sentinels:
  assumes "r' \<in> set (rows (clean_data df))"
  shows "\<exists>r\<in>set (rows df). length r' = length r
      \<and> (\<forall>j<length r. r' ! j =
            (if j < length (columns df) \<and> is_number (dtypes df ! j)
                \<and> (r ! j = Num (- 999) \<or> r ! j = Num (- 999.0) \<or> r ! j = Str ''N/A'')
             then Null else r ! j))"
proof -
  from assms obtain r where r: "r \<in> set (rows df)" and e: "r' = replace_row (dtypes df) r"
    by (auto simp: rows_clean_data)
  have "length (dtypes df) = length (columns df)" by (simp add: dtypes_def)
  with e have "\<forall>j<length r. r' ! j =
            (if j < length (columns df) \<and> is_number (dtypes df ! j)
                \<and> (r ! j = Num (- 999) \<or> r ! j = Num (- 999.0) \<or> r ! j = Str ''N/A'')
             then Null else r ! j)"
    by (simp add: replace_row_nth set_to_replace)
  with r e show ?thesis by auto
qed

theorem clean_data_replaces_sentinels_witness:
  "[Num 0.1, Null, Str ''N/A''] \<in> set (rows (clean_data sample_frame))
   \<and> (\<exists>r\<in>set (rows sample_frame). length [Num 0.1, Null, Str ''N/A''] = length r
      \<and> (\<forall>j<length r. [Num 0.1, Null, Str ''N/A''] ! j =
            (if j < length (columns sample_frame) \<and> is_number (dtypes sample_frame ! j)
                \<and> (r ! j = Num (- 999) \<or> r ! j = Num (- 999.0) \<or> r ! j = Str ''N/A'')
             then Null else r ! j)))"
proof -
  have "[Num 0.1, Null, Str ''N/A''] \<in> set (rows (clean_data sample_frame))"
    unfolding rows_clean_data sample_frame_aod_columns
    by (simp add: sample_frame_def names_def dtypes_def is_number_def to_replace_def row_get_def)
  with clean_data_replaces_sentinels [of "[Num 0.1, Null, Str ''N/A'']" sample_frame]
  show ?thesis by blast
qed

text \<open>
  Claim C10. The rows of the cleaned table are the rows of the input after the
  replacement of the sentinels, without those in which every resolved AOD column is
  missing; when no AOD column is resolved, every row stays.
\<close>

theorem clean_data_drops_all_null_rows:
  "rows (clean_data df) =
     filter (\<lambda>r. extract_aod_columns (names df) = []
                \<or> list_ex (\<lambda>n. row_get (names df) r n \<noteq> Null)
                     (map snd (extract_aod_columns (names df))))
       (map (replace_row (dtypes df)) (rows df))"
  by (rule rows_clean_data)

theorem clean_data_drops_all_null_rows_witness:
  "rows (clean_data sample_frame) = [[Num 0.1, Null, Str ''N/A''], [Null, Num 3, Null]]"
  using clean_data_drops_all_null_rows [of sample_frame]
  unfolding sample_frame_aod_columns
  by (simp add: sample_frame_def names_def dtypes_def is_number_def to_replace_def row_get_def)

section \<open>Statistics (\<open>calculate_statistics\<close>)\<close>

lemma extract_aod_columns_in_cols:
  assumes "map_of (extract_aod_columns cols) w = Some col"
  shows "col \<in> set cols"
proof -
  let ?bound = "filter (\<lambda>c. first_wavelength c = Some w) cols"
  from assms have "?bound \<noteq> [] \<and> col = last ?bound"
    by (auto simp: extract_aod_columns_def map_of_scan_columns split: list.splits)
  then have "col \<in> set ?bound"
    using last_in_set by blast
  then show ?thesis by simp
qed

lemma numbers_dropna:
  "list_all numeric_cell cs \<Longrightarrow> numbers (dropna cs) = Some (values_of cs)"
  by (induction cs rule: values_of.induct) (auto simp: dropna_def)

lemma dropna_empty_iff:
  "list_all numeric_cell cs \<Longrightarrow> dropna cs = [] \<longleftrightarrow> values_of cs = []"
  by (induction cs rule: values_of.induct) (auto simp: dropna_def)

lemma series_min_Min: "xs \<noteq> [] \<Longrightarrow> series_min xs = Min (set xs)"
proof (cases xs)
  case Nil
  assume "xs \<noteq> []"
  with Nil show ?thesis by simp
next
  case (Cons a list)
  then show ?thesis
    using Min.set_eq_fold [of a list] by (simp add: series_min_def)
qed

lemma series_max_Max: "xs \<noteq> [] \<Longrightarrow> series_max xs = Max (set xs)"
proof (cases xs)
  case Nil
  assume "xs \<noteq> []"
  with Nil show ?thesis by simp
next
  case (Cons a list)
  then show ?thesis
    using Max.set_eq_fold [of a list] by (simp add: series_max_def)
qed

lemma example_frame_aod_columns:
  "extract_aod_columns (names example_frame) = [(440, ''AOD_440nm'')]"
  unfolding example_frame_def names_def by code_simp

text \<open>
  Claim C5, for a resolved column of numbers and missing values, in exact arithmetic.
  The result is none exactly when the wavelength is not in the column map or the
  resolved column has no number. Otherwise, with \<open>vals\<close> the numbers of the column
  (missing values left out) and \<open>s\<close> these numbers sorted: the count is their number,
  the mean their sum over the count, the median the middle element of \<open>s\<close> or the
  average of the two middle elements, the standard deviation the square root of the sum
  of the squared differences from the mean over the count less one (undefined for a
  single value), the minimum and maximum the least and greatest of them, and the
  quartiles the linear interpolation between the elements of \<open>s\<close> around the position
  \<open>(count - 1) * q\<close>.
\<close>

theorem calculate_statistics_spec:
  fixes df w
  defines "column \<equiv> (\<lambda>col. map (\<lambda>r. row_get (names df) r col) (rows df))"
  assumes num: "\<forall>col. map_of (extract_aod_columns (names df)) w = Some col \<longrightarrow>
                  list_all numeric_cell (column col)"
  shows "calculate_statistics df w =
     Inr (case map_of (extract_aod_columns (names df)) w of
            None \<Rightarrow> None
          | Some col \<Rightarrow>
              (let vals = values_of (column col); n = length vals; s = sort vals;
                   m = sum_list vals / real n;
                   quantile = (\<lambda>q. let h = real (n - 1) * q; lo = nat \<lfloor>h\<rfloor>
                                    in s ! lo + (h - real lo) * (s ! min (lo + 1) (n - 1) - s ! lo))
               in if vals = [] then None
                  else Some \<lparr>count' = n,
                             mean = m,
                             median = (if even n then (s ! (n div 2 - 1) + s ! (n div 2)) / 2
                                       else s ! (n div 2)),
                             std = (if n < 2 then None
                                    else Some (sqrt (sum_list (map (\<lambda>x. (x - m)\<^sup>2) vals)
                                                     / real (n - 1)))),
                             min' = Min (set vals),
                             max' = Max (set vals),
                             q25 = quantile 0.25,
                             q75 = quantile 0.75\<rparr>))
     \<and> (calculate_statistics df w = Inr None \<longleftrightarrow>
          map_of (extract_aod_columns (names df)) w = None
          \<or> (\<exists>col. map_of (extract_aod_columns (names df)) w = Some col
                   \<and> values_of (column col) = []))"
proof -
  have main: "calculate_statistics df w =
     Inr (case map_of (extract_aod_columns (names df)) w of
            None \<Rightarrow> None
          | Some col \<Rightarrow>
              (let vals = values_of (column col); n = length vals; s = sort vals;
                   m = sum_list vals / real n;
                   quantile = (\<lambda>q. let h = real (n - 1) * q; lo = nat \<lfloor>h\<rfloor>
                                    in s ! lo + (h - real lo) * (s ! min (lo + 1) (n - 1) - s ! lo))
               in if vals = [] then None
                  else Some \<lparr>count' = n,
                             mean = m,
                             median = (if even n then (s ! (n div 2 - 1) + s ! (n div 2)) / 2
                                       else s ! (n div 2)),
                             std = (if n < 2 then None
                                    else Some (sqrt (sum_list (map (\<lambda>x. (x - m)\<^sup>2) vals)
                                                     / real (n - 1)))),
                             min' = Min (set vals),
                             max' = Max (set vals),
                             q25 = quantile 0.25,
                             q75 = quantile 0.75\<rparr>))"
  proof (cases "map_of (extract_aod_columns (names df)) w")
    case None
    then show ?thesis by (simp add: calculate_statistics_def)
  next
    case (Some col)
    then have "col \<in> set (names df)" by (rule extract_aod_columns_in_cols)
    then have g: "get_column df col = Inr (column col)"
      by (simp add: get_column_def column_def)
    from num Some have n: "list_all numeric_cell (column col)" by simp
    show ?thesis
    proof (cases "values_of (column col) = []")
      case True
      with n have "dropna (column col) = []" by (simp add: dropna_empty_iff)
      with Some g True show ?thesis by (simp add: calculate_statistics_def)
    next
      case False
      with n have "dropna (column col) \<noteq> []" by (simp add: dropna_empty_iff)
      with Some g False n show ?thesis
        by (simp add: calculate_statistics_def numbers_dropna Let_def series_min_Min
            series_max_Max series_mean_def series_median_def series_std_def
            series_quantile_def)
    qed
  qed
  have "calculate_statistics df w = Inr None \<longleftrightarrow>
          map_of (extract_aod_columns (names df)) w = None
          \<or> (\<exists>col. map_of (extract_aod_columns (names df)) w = Some col
                   \<and> values_of (column col) = [])"
    by (subst main) (auto simp: Let_def split: option.splits)
  with main show ?thesis by blast
qed

theorem calculate_statistics_spec_witness:
  "calculate_statistics example_frame 440 =
     Inr (Some \<lparr>count' = 3, mean = 7 / 30, median = 0.2, std = Some (sqrt (7 / 300)),
                min' = 0.1, max' = 0.4, q25 = 0.15, q75 = 0.3\<rparr>)"
proof -
  have n: "names example_frame = [''AOD_440nm'']"
    by (simp add: example_frame_def names_def)
  have "\<forall>col. map_of (extract_aod_columns (names example_frame)) 440 = Some col \<longrightarrow>
          list_all numeric_cell (map (\<lambda>r. row_get (names example_frame) r col) (rows example_frame))"
    unfolding example_frame_aod_columns by (simp add: example_frame_def names_def row_get_def)
  from calculate_statistics_spec [OF this, THEN conjunct1] show ?thesis
    unfolding example_frame_aod_columns
    by (simp add: example_frame_def names_def row_get_def Let_def power2_eq_square)
qed

text \<open>A resolved column that holds text makes the arithmetic of pandas raise.\<close>

lemma calculate_statistics_text_column:
  "calculate_statistics \<lparr>columns = [(''AOD_440nm'', Object)], rows = [[Str ''abc'']]\<rparr> 440
     = Inl TypeError"
proof -
  have "extract_aod_columns [''AOD_440nm''] = [(440, ''AOD_440nm'')]"
    by code_simp
  then show ?thesis
    by (simp add: calculate_statistics_def names_def get_column_def row_get_def dropna_def)
qed

end
